theory Spec2Isabelle
  imports Complex_Main
begin

section \<open>Strings: digit stripping, formatting and the CPF check\<close>

text \<open>
  Python strings are modelled as \<^typ>\<open>string\<close>, one \<^typ>\<open>char\<close> per code point, so the
  model covers the code points below 256. In that range the regular expression class
  \<^verbatim>\<open>\D\<close> (everything but a decimal digit) excludes exactly the ten characters
  \<^verbatim>\<open>0\<close> to \<^verbatim>\<open>9\<close>.
\<close>

definition is_digit :: "char \<Rightarrow> bool" where
  "is_digit c = (48 \<le> (of_char c :: nat) \<and> (of_char c :: nat) \<le> 57)"

text \<open>\<^verbatim>\<open>re.sub(r'\D', '', s)\<close>\<close>

definition digits_only :: "string \<Rightarrow> string" where
  "digits_only s = filter is_digit s"

text \<open>\<^verbatim>\<open>int(c)\<close> for a one-character digit string, and \<^verbatim>\<open>f"{d}"\<close> for \<open>d\<close> in 0..9.\<close>

definition int_of_digit :: "char \<Rightarrow> int" where
  "int_of_digit c = int (of_char c) - 48"

definition str_of_digit :: "int \<Rightarrow> string" where
  "str_of_digit d = [char_of (48 + d)]"

text \<open>Python's \<^verbatim>\<open>s[i:j]\<close> for \<open>0 \<le> i \<le> j\<close>.\<close>

definition slice :: "nat \<Rightarrow> nat \<Rightarrow> 'a list \<Rightarrow> 'a list" where
  "slice i j xs = take (j - i) (drop i xs)"

text \<open>
  \<^verbatim>\<open>Customer.format_cpf\<close> and \<^verbatim>\<open>Customer.format_phone\<close> read one field of
  \<^verbatim>\<open>self\<close> each; the field's value is the argument here.
\<close>

definition format_cpf :: "string \<Rightarrow> string" where
  "format_cpf self_cpf =
     (let cpf = digits_only self_cpf in
      if length cpf = 11
      then slice 0 3 cpf @ ''.'' @ slice 3 6 cpf @ ''.'' @ slice 6 9 cpf @ ''-'' @ drop 9 cpf
      else self_cpf)"

definition format_phone :: "string \<Rightarrow> string" where
  "format_phone self_phone =
     (let phone = digits_only self_phone in
      if length phone = 11
      then ''('' @ slice 0 2 phone @ '') '' @ slice 2 7 phone @ ''-'' @ drop 7 phone
      else if length phone = 10
      then ''('' @ slice 0 2 phone @ '') '' @ slice 2 6 phone @ ''-'' @ drop 6 phone
      else self_phone)"

text \<open>
  The two check digits that \<^verbatim>\<open>validate_cpf\<close> computes from the first nine and the
  first ten digits, and its last line, the comparison with the last two characters.
\<close>

definition check_digit1 :: "string \<Rightarrow> int" where
  "check_digit1 cpf =
     (let sum1 = (\<Sum>i\<leftarrow>[0..<9]. int_of_digit (cpf ! i) * (10 - int i));
          digit1 = 11 - (sum1 mod 11)
      in if digit1 \<ge> 10 then 0 else digit1)"

definition check_digit2 :: "string \<Rightarrow> int" where
  "check_digit2 cpf =
     (let sum2 = (\<Sum>i\<leftarrow>[0..<10]. int_of_digit (cpf ! i) * (11 - int i));
          digit2 = 11 - (sum2 mod 11)
      in if digit2 \<ge> 10 then 0 else digit2)"

definition checksum_matches :: "string \<Rightarrow> bool" where
  "checksum_matches cpf =
     (drop (length cpf - 2) cpf = str_of_digit (check_digit1 cpf) @ str_of_digit (check_digit2 cpf))"

definition validate_cpf :: "string \<Rightarrow> bool" where
  "validate_cpf raw =
     (let cpf = digits_only raw in
      if length cpf \<noteq> 11 then False
      else if cpf = replicate 11 (cpf ! 0) then False
      else checksum_matches cpf)"


section \<open>The data model\<close>

text \<open>
  The three tables the loyalty logic reads and writes. A \<^verbatim>\<open>Float\<close> column is a
  \<^typ>\<open>rat\<close> (exact arithmetic: rounding, infinities and NaN are outside the model), an
  \<^verbatim>\<open>Integer\<close> column an \<^typ>\<open>int\<close>, a \<^verbatim>\<open>DateTime\<close> a \<^typ>\<open>nat\<close> (a clock
  reading), a primary key a \<^typ>\<open>nat\<close>.
\<close>

record loyalty_config =
  cfg_id :: nat
  benefit_type :: string
  points_per_real :: rat
  silver_threshold :: int
  gold_threshold :: int
  diamond_threshold :: int
  bronze_discount :: rat
  silver_discount :: rat
  gold_discount :: rat
  diamond_discount :: rat
  welcome_message :: string
  promotion_message_template :: string
  cfg_created_at :: nat
  updated_at :: nat
  cfg_active :: bool

record customer =
  cust_id :: nat
  full_name :: string
  cpf :: string
  phone :: string
  email :: string
  points :: int
  total_spent :: rat
  level :: string
  created_at :: nat
  last_visit :: nat
  active :: bool

record transaction =
  tx_id :: nat
  customer_id :: nat
  amount :: rat
  points_earned :: int
  benefit_value :: rat
  tx_benefit_type :: string
  description :: string
  tx_created_at :: nat

text \<open>
  The database: each table is the list of its rows in insertion order. A query's
  \<^verbatim>\<open>first()\<close> is the first matching row of the list.
\<close>

record store =
  customers :: "customer list"
  transactions :: "transaction list"
  configs :: "loyalty_config list"

text \<open>The key the database gives a new row: one more than the largest key in the table.\<close>

definition next_id :: "nat list \<Rightarrow> nat" where
  "next_id ids = Suc (foldr max ids 0)"

text \<open>What the source can raise inside a route, and what a route answers instead of a result.\<close>

datatype exn = NotFound | ZeroDivisionError | ValueError

datatype error =
    NameRequired | CpfRequired | PhoneRequired | CpfInvalid | CpfDuplicate
  | AmountNotPositive
  | Internal exn

fun status_code :: "error \<Rightarrow> nat" where
  "status_code (Internal e) = 500"
| "status_code e = 400"

section \<open>The active configuration\<close>

text \<open>\<^verbatim>\<open>LoyaltyConfig()\<close> once inserted: every column at its default.\<close>

definition default_config :: "nat \<Rightarrow> nat \<Rightarrow> loyalty_config" where
  "default_config new_id now =
     \<lparr>cfg_id = new_id, benefit_type = ''points'', points_per_real = 10,
      silver_threshold = 500, gold_threshold = 1500, diamond_threshold = 3000,
      bronze_discount = 5, silver_discount = 10, gold_discount = 15, diamond_discount = 20,
      welcome_message = ''Bem-vindo ao programa de fidelidade Kaseirim!'',
      promotion_message_template =
        ''Ol'' @ [char_of (225 :: nat)] @ '' {name}! Voc'' @ [char_of (234 :: nat)] @
        '' tem {points} pontos. Aproveite nossa promo'' @ [char_of (231 :: nat), char_of (227 :: nat)] @
        ''o especial!'',
      cfg_created_at = now, updated_at = now, cfg_active = True\<rparr>"

text \<open>
  \<^verbatim>\<open>LoyaltyConfig.get_current_config\<close>: the first active row, or a new default row,
  inserted and committed. It returns the row and the database after the call.
\<close>

definition get_current_config :: "nat \<Rightarrow> store \<Rightarrow> loyalty_config \<times> store" where
  "get_current_config now s =
     (case find cfg_active (configs s) of
        Some config \<Rightarrow> (config, s)
      | None \<Rightarrow>
          (let config = default_config (next_id (map cfg_id (configs s))) now
           in (config, s\<lparr>configs := configs s @ [config]\<rparr>)))"

section \<open>Methods of a customer\<close>

text \<open>
  Each method of \<^verbatim>\<open>Customer\<close> starts by fetching the active configuration. Its model
  is a pair: the body, a function of the configuration it fetched, and the method, which
  fetches the configuration and runs the body, returning the database with the result.
\<close>

definition get_level_body :: "loyalty_config \<Rightarrow> customer \<Rightarrow> string" where
  "get_level_body config self =
     (if points self \<ge> diamond_threshold config then ''Diamante''
      else if points self \<ge> gold_threshold config then ''Ouro''
      else if points self \<ge> silver_threshold config then ''Prata''
      else ''Bronze'')"

definition get_level :: "nat \<Rightarrow> customer \<Rightarrow> store \<Rightarrow> string \<times> store" where
  "get_level now self s =
     (let (config, s1) = get_current_config now s
      in (get_level_body config self, s1))"

definition get_discount_body :: "loyalty_config \<Rightarrow> string \<Rightarrow> rat" where
  "get_discount_body config lvl =
     (let discounts = map_of
            [(''Bronze'', bronze_discount config),
             (''Prata'', silver_discount config),
             (''Ouro'', gold_discount config),
             (''Diamante'', diamond_discount config)]
      in case discounts lvl of Some d \<Rightarrow> d | None \<Rightarrow> bronze_discount config)"

definition get_discount :: "nat \<Rightarrow> customer \<Rightarrow> store \<Rightarrow> rat \<times> store" where
  "get_discount now self s =
     (let (config, s1) = get_current_config now s;
          (lvl, s2) = get_level now self s1
      in (get_discount_body config lvl, s2))"

definition points_to_next_level_body :: "loyalty_config \<Rightarrow> customer \<Rightarrow> int" where
  "points_to_next_level_body config self =
     (if points self < silver_threshold config then silver_threshold config - points self
      else if points self < gold_threshold config then gold_threshold config - points self
      else if points self < diamond_threshold config then diamond_threshold config - points self
      else 0)"

definition points_to_next_level :: "nat \<Rightarrow> customer \<Rightarrow> store \<Rightarrow> int \<times> store" where
  "points_to_next_level now self s =
     (let (config, s1) = get_current_config now s
      in (points_to_next_level_body config self, s1))"

text \<open>\<^verbatim>\<open>int(a // b)\<close> on floats: the floor of the quotient, or the exception for \<open>b = 0\<close>.\<close>

definition int_floordiv :: "rat \<Rightarrow> rat \<Rightarrow> exn + int" where
  "int_floordiv a b = (if b = 0 then Inl ZeroDivisionError else Inr \<lfloor>a / b\<rfloor>)"

text \<open>
  \<^verbatim>\<open>Customer.add_points\<close>: the three branches on the benefit type hold the same two
  lines. The result is the exception, or the points added and the mutated customer.
\<close>

definition add_points :: "nat \<Rightarrow> rat \<Rightarrow> customer \<Rightarrow> store \<Rightarrow> (exn + int \<times> customer) \<times> store" where
  "add_points now amount_spent self s =
     (let (config, s1) = get_current_config now s in
      case (if benefit_type config = ''points''
            then int_floordiv amount_spent (points_per_real config)
            else if benefit_type config = ''cashback''
            then int_floordiv amount_spent (points_per_real config)
            else int_floordiv amount_spent (points_per_real config)) of
        Inl e \<Rightarrow> (Inl e, s1)
      | Inr points_to_add \<Rightarrow>
          (let self1 = self\<lparr>points := points self + points_to_add\<rparr>;
               self2 = self1\<lparr>total_spent := total_spent self1 + amount_spent\<rparr>;
               (lvl, s2) = get_level now self2 s1;
               self3 = self2\<lparr>level := lvl\<rparr>;
               self4 = self3\<lparr>last_visit := now\<rparr>
           in (Inr (points_to_add, self4), s2)))"

text \<open>
  \<^verbatim>\<open>Customer.calculate_benefit_value\<close>: a percentage of the amount for a discount or
  a cashback; for points, a call of \<^verbatim>\<open>add_points\<close>, whose result it returns.
\<close>

definition calculate_benefit_value ::
  "nat \<Rightarrow> rat \<Rightarrow> customer \<Rightarrow> store \<Rightarrow> (exn + rat \<times> customer) \<times> store" where
  "calculate_benefit_value now amount_spent self s =
     (let (config, s1) = get_current_config now s in
      if benefit_type config = ''discount'' then
        (let (discount_percent, s2) = get_discount now self s1
         in (Inr (amount_spent * (discount_percent / 100), self), s2))
      else if benefit_type config = ''cashback'' then
        (let (cashback_percent, s2) = get_discount now self s1
         in (Inr (amount_spent * (cashback_percent / 100), self), s2))
      else
        (case add_points now amount_spent self s1 of
           (Inl e, s2) \<Rightarrow> (Inl e, s2)
         | (Inr (points_to_add, self'), s2) \<Rightarrow> (Inr (of_int points_to_add, self'), s2)))"


text \<open>\<^verbatim>\<open>Customer.to_dict\<close>: the stored fields and three values computed on the way out.\<close>

record customer_dict =
  d_id :: nat
  d_full_name :: string
  d_cpf :: string
  d_cpf_raw :: string
  d_phone :: string
  d_phone_raw :: string
  d_email :: string
  d_points :: int
  d_total_spent :: rat
  d_level :: string
  d_discount :: rat
  d_points_to_next_level :: int
  d_created_at :: nat
  d_last_visit :: nat
  d_active :: bool
  d_benefit_type :: string

definition to_dict :: "nat \<Rightarrow> customer \<Rightarrow> store \<Rightarrow> customer_dict \<times> store" where
  "to_dict now self s =
     (let (config, s1) = get_current_config now s;
          (discount, s2) = get_discount now self s1;
          (gap, s3) = points_to_next_level now self s2
      in (\<lparr>d_id = cust_id self, d_full_name = full_name self,
           d_cpf = format_cpf (cpf self), d_cpf_raw = cpf self,
           d_phone = format_phone (phone self), d_phone_raw = phone self,
           d_email = email self, d_points = points self, d_total_spent = total_spent self,
           d_level = level self, d_discount = discount, d_points_to_next_level = gap,
           d_created_at = created_at self, d_last_visit = last_visit self,
           d_active = active self, d_benefit_type = benefit_type config\<rparr>, s3))"

section \<open>The routes\<close>

text \<open>
  A route takes the clock, the request and the database, and returns its answer with the
  database after it. A customer fetched from the database is a value of its own until
  \<^verbatim>\<open>db.session.commit()\<close> writes it back (\<open>commit_customer\<close>); a route that answers
  with an error before that leaves the database as its last commit left it. The one
  commit inside a method, in \<^verbatim>\<open>get_current_config\<close> when it inserts the default row,
  happens in \<^verbatim>\<open>add_transaction\<close> before any field of the customer is assigned, and in
  \<^verbatim>\<open>update_customer\<close> between assignments none of which can raise, so writing the
  customer back once, at the route's commit, gives the same database.
\<close>

definition get_customer_row :: "nat \<Rightarrow> store \<Rightarrow> customer option" where
  "get_customer_row i s = find (\<lambda>c. cust_id c = i) (customers s)"

definition commit_customer :: "customer \<Rightarrow> store \<Rightarrow> store" where
  "commit_customer c s =
     s\<lparr>customers := map (\<lambda>x. if cust_id x = cust_id c then c else x) (customers s)\<rparr>"

text \<open>
  The JSON body of \<^verbatim>\<open>POST /customers\<close>: a key that is absent is \<open>None\<close>.
  \<^verbatim>\<open>not data.get(k)\<close> holds for an absent key and for the empty string.
\<close>

record customer_request =
  rq_full_name :: "string option"
  rq_cpf :: "string option"
  rq_phone :: "string option"
  rq_email :: "string option"
  rq_points :: "int option"

definition create_customer ::
  "nat \<Rightarrow> customer_request \<Rightarrow> store \<Rightarrow> (error + customer_dict) \<times> store" where
  "create_customer now data s =
     (case rq_full_name data of None \<Rightarrow> (Inl NameRequired, s) | Some name \<Rightarrow>
      if name = [] then (Inl NameRequired, s) else
      case rq_cpf data of None \<Rightarrow> (Inl CpfRequired, s) | Some raw_cpf \<Rightarrow>
      if raw_cpf = [] then (Inl CpfRequired, s) else
      case rq_phone data of None \<Rightarrow> (Inl PhoneRequired, s) | Some raw_phone \<Rightarrow>
      if raw_phone = [] then (Inl PhoneRequired, s) else
      let cpf' = digits_only raw_cpf in
      if \<not> validate_cpf cpf' then (Inl CpfInvalid, s) else
      case find (\<lambda>c. cpf c = cpf') (customers s) of
        Some existing_customer \<Rightarrow> (Inl CpfDuplicate, s)
      | None \<Rightarrow>
          (let phone' = digits_only raw_phone;
               customer =
                 \<lparr>cust_id = next_id (map cust_id (customers s)),
                  full_name = name, cpf = cpf', phone = phone',
                  email = (case rq_email data of None \<Rightarrow> [] | Some e \<Rightarrow> e),
                  points = (case rq_points data of None \<Rightarrow> 0 | Some p \<Rightarrow> p),
                  total_spent = 0, level = ''Bronze'',
                  created_at = now, last_visit = now, active = True\<rparr>;
               s1 = s\<lparr>customers := customers s @ [customer]\<rparr>;
               (d, s2) = to_dict now customer s1
           in (Inr d, s2)))"

text \<open>The JSON body of \<^verbatim>\<open>PUT /customers/<id>\<close>: \<open>None\<close> is \<^verbatim>\<open>k not in data\<close>.\<close>

record customer_update =
  up_full_name :: "string option"
  up_phone :: "string option"
  up_email :: "string option"
  up_points :: "int option"

definition update_customer ::
  "nat \<Rightarrow> nat \<Rightarrow> customer_update \<Rightarrow> store \<Rightarrow> (error + customer_dict) \<times> store" where
  "update_customer now customer_id' data s =
     (case get_customer_row customer_id' s of
        None \<Rightarrow> (Inl (Internal NotFound), s)
      | Some customer \<Rightarrow>
          (let c1 = (case up_full_name data of None \<Rightarrow> customer
                     | Some v \<Rightarrow> customer\<lparr>full_name := v\<rparr>);
               c2 = (case up_phone data of None \<Rightarrow> c1
                     | Some v \<Rightarrow> c1\<lparr>phone := digits_only v\<rparr>);
               c3 = (case up_email data of None \<Rightarrow> c2
                     | Some v \<Rightarrow> c2\<lparr>email := v\<rparr>);
               (c4, s1) = (case up_points data of None \<Rightarrow> (c3, s)
                     | Some v \<Rightarrow>
                         (let c' = c3\<lparr>points := v\<rparr>;
                              (lvl, s') = get_level now c' s
                          in (c'\<lparr>level := lvl\<rparr>, s')));
               s2 = commit_customer c4 s1;
               (d, s3) = to_dict now c4 s2
           in (Inr d, s3)))"

text \<open>
  The JSON body of \<^verbatim>\<open>POST /customers/<id>/transactions\<close>. \<^verbatim>\<open>float(data.get('amount', 0))\<close>
  is 0 for an absent key, the number for a number or a numeric string, and raises for
  anything else.
\<close>

datatype json_amount = Absent | Number rat | Unparseable

record transaction_request =
  rq_amount :: json_amount
  rq_description :: "string option"

fun float_of :: "json_amount \<Rightarrow> exn + rat" where
  "float_of Absent = Inr 0"
| "float_of (Number r) = Inr r"
| "float_of Unparseable = Inl ValueError"

definition add_transaction ::
  "nat \<Rightarrow> nat \<Rightarrow> transaction_request \<Rightarrow> store \<Rightarrow> (error + transaction \<times> customer_dict) \<times> store" where
  "add_transaction now customer_id' data s =
     (case get_customer_row customer_id' s of
        None \<Rightarrow> (Inl (Internal NotFound), s)
      | Some customer \<Rightarrow>
     (case float_of (rq_amount data) of
        Inl e \<Rightarrow> (Inl (Internal e), s)
      | Inr amount' \<Rightarrow>
      if amount' \<le> 0 then (Inl AmountNotPositive, s) else
     (case add_points now amount' customer s of
        (Inl e, s1) \<Rightarrow> (Inl (Internal e), s1)
      | (Inr (points_earned', customer1), s1) \<Rightarrow>
     (let (config, s2) = get_current_config now s1 in
      case calculate_benefit_value now amount' customer1 s2 of
        (Inl e, s3) \<Rightarrow> (Inl (Internal e), s3)
      | (Inr (benefit_value', customer2), s3) \<Rightarrow>
          (let transaction =
                 \<lparr>tx_id = next_id (map tx_id (transactions s3)),
                  customer_id = customer_id', amount = amount',
                  points_earned = points_earned', benefit_value = benefit_value',
                  tx_benefit_type = benefit_type config,
                  description = (case rq_description data of None \<Rightarrow> [] | Some v \<Rightarrow> v),
                  tx_created_at = now\<rparr>;
               s4 = commit_customer customer2 (s3\<lparr>transactions := transactions s3 @ [transaction]\<rparr>);
               (d, s5) = to_dict now customer2 s4
           in (Inr (transaction, d), s5))))))"

text \<open>The JSON body of \<^verbatim>\<open>PUT /config\<close>: the fields the route allows, each optional.\<close>

record config_update =
  cu_benefit_type :: "string option"
  cu_points_per_real :: "rat option"
  cu_silver_threshold :: "int option"
  cu_gold_threshold :: "int option"
  cu_diamond_threshold :: "int option"
  cu_bronze_discount :: "rat option"
  cu_silver_discount :: "rat option"
  cu_gold_discount :: "rat option"
  cu_diamond_discount :: "rat option"
  cu_welcome_message :: "string option"
  cu_promotion_message_template :: "string option"

definition set_fields :: "config_update \<Rightarrow> loyalty_config \<Rightarrow> loyalty_config" where
  "set_fields data config =
     config\<lparr>benefit_type := (case cu_benefit_type data of None \<Rightarrow> benefit_type config | Some v \<Rightarrow> v),
            points_per_real := (case cu_points_per_real data of None \<Rightarrow> points_per_real config | Some v \<Rightarrow> v),
            silver_threshold := (case cu_silver_threshold data of None \<Rightarrow> silver_threshold config | Some v \<Rightarrow> v),
            gold_threshold := (case cu_gold_threshold data of None \<Rightarrow> gold_threshold config | Some v \<Rightarrow> v),
            diamond_threshold := (case cu_diamond_threshold data of None \<Rightarrow> diamond_threshold config | Some v \<Rightarrow> v),
            bronze_discount := (case cu_bronze_discount data of None \<Rightarrow> bronze_discount config | Some v \<Rightarrow> v),
            silver_discount := (case cu_silver_discount data of None \<Rightarrow> silver_discount config | Some v \<Rightarrow> v),
            gold_discount := (case cu_gold_discount data of None \<Rightarrow> gold_discount config | Some v \<Rightarrow> v),
            diamond_discount := (case cu_diamond_discount data of None \<Rightarrow> diamond_discount config | Some v \<Rightarrow> v),
            welcome_message := (case cu_welcome_message data of None \<Rightarrow> welcome_message config | Some v \<Rightarrow> v),
            promotion_message_template :=
              (case cu_promotion_message_template data of None \<Rightarrow> promotion_message_template config | Some v \<Rightarrow> v)\<rparr>"

definition commit_config :: "loyalty_config \<Rightarrow> store \<Rightarrow> store" where
  "commit_config c s =
     s\<lparr>configs := map (\<lambda>x. if cfg_id x = cfg_id c then c else x) (configs s)\<rparr>"

definition update_loyalty_config ::
  "nat \<Rightarrow> config_update \<Rightarrow> store \<Rightarrow> loyalty_config \<times> store" where
  "update_loyalty_config now data s =
     (let (config, s1) = get_current_config now s;
          config1 = set_fields data config;
          config2 = config1\<lparr>updated_at := now\<rparr>
      in (config2, commit_config config2 s1))"


section \<open>Closed forms and the notions of the specification\<close>

text \<open>
  What \<^verbatim>\<open>add_points\<close> leaves in the customer it was called on, and what
  \<^verbatim>\<open>to_dict\<close> returns, as functions of the configuration in force. The lemmas
  \<open>add_points_run\<close> and \<open>to_dict_run\<close> below prove that the methods compute them.
\<close>

definition credited :: "nat \<Rightarrow> loyalty_config \<Rightarrow> rat \<Rightarrow> customer \<Rightarrow> customer" where
  "credited now c a self =
     (let self2 = self\<lparr>points := points self + \<lfloor>a / points_per_real c\<rfloor>,
                        total_spent := total_spent self + a\<rparr>
      in self2\<lparr>level := get_level_body c self2, last_visit := now\<rparr>)"

definition dict_of :: "loyalty_config \<Rightarrow> customer \<Rightarrow> customer_dict" where
  "dict_of c self =
     \<lparr>d_id = cust_id self, d_full_name = full_name self,
      d_cpf = format_cpf (cpf self), d_cpf_raw = cpf self,
      d_phone = format_phone (phone self), d_phone_raw = phone self,
      d_email = email self, d_points = points self, d_total_spent = total_spent self,
      d_level = level self, d_discount = get_discount_body c (get_level_body c self),
      d_points_to_next_level = points_to_next_level_body c self,
      d_created_at = created_at self, d_last_visit = last_visit self,
      d_active = active self, d_benefit_type = benefit_type c\<rparr>"

text \<open>
  The customer and the transaction row that \<^verbatim>\<open>add_transaction\<close> commits
  (lemma \<open>add_transaction_run\<close>).
\<close>

definition posted :: "nat \<Rightarrow> loyalty_config \<Rightarrow> rat \<Rightarrow> customer \<Rightarrow> customer" where
  "posted now c a cust =
     (if benefit_type c = ''discount'' \<or> benefit_type c = ''cashback''
      then credited now c a cust
      else credited now c a (credited now c a cust))"

definition receipt :: "nat \<Rightarrow> loyalty_config \<Rightarrow> nat \<Rightarrow> nat \<Rightarrow> transaction_request \<Rightarrow> rat \<Rightarrow> customer \<Rightarrow> transaction" where
  "receipt now c new_id i data a cust =
     \<lparr>tx_id = new_id, customer_id = i, amount = a,
      points_earned = \<lfloor>a / points_per_real c\<rfloor>,
      benefit_value =
        (if benefit_type c = ''discount'' \<or> benefit_type c = ''cashback''
         then a * (get_discount_body c (get_level_body c (credited now c a cust)) / 100)
         else of_int \<lfloor>a / points_per_real c\<rfloor>),
      tx_benefit_type = benefit_type c,
      description = (case rq_description data of None \<Rightarrow> [] | Some v \<Rightarrow> v),
      tx_created_at = now\<rparr>"

text \<open>
  The order of the tiers, Bronze below Prata (silver) below Ouro (gold) below Diamante
  (diamond), as the position in the list of their names.
\<close>

definition tier_names :: "string list" where
  "tier_names = [''Bronze'', ''Prata'', ''Ouro'', ''Diamante'']"

definition tier_rank :: "string \<Rightarrow> nat" where
  "tier_rank lvl = length (takeWhile (\<lambda>t. t \<noteq> lvl) tier_names)"

definition next_unreached_threshold :: "loyalty_config \<Rightarrow> int \<Rightarrow> int option" where
  "next_unreached_threshold config p =
     find (\<lambda>t. p < t) [silver_threshold config, gold_threshold config, diamond_threshold config]"

text \<open>Concrete inputs on which the theorems are exercised.\<close>

definition example_customer :: "int \<Rightarrow> customer" where
  "example_customer p =
     \<lparr>cust_id = 1, full_name = ''Ana'', cpf = ''52998224725'', phone = ''11987654321'',
      email = [], points = p, total_spent = 0, level = ''Bronze'',
      created_at = 0, last_visit = 0, active = True\<rparr>"

definition empty_store :: store where
  "empty_store = \<lparr>customers = [], transactions = [], configs = []\<rparr>"

definition example_store :: "int \<Rightarrow> store" where
  "example_store p = \<lparr>customers = [example_customer p], transactions = [], configs = []\<rparr>"

definition example_registration :: "string \<Rightarrow> int \<Rightarrow> customer_request" where
  "example_registration c p =
     \<lparr>rq_full_name = Some ''Bia'', rq_cpf = Some c, rq_phone = Some ''(11) 98765-4321'',
      rq_email = None, rq_points = Some p\<rparr>"

definition discount_store :: "int \<Rightarrow> store" where
  "discount_store p =
     \<lparr>customers = [example_customer p], transactions = [],
      configs = [(default_config 1 0)\<lparr>benefit_type := ''discount''\<rparr>]\<rparr>"

definition discount_transaction :: transaction_request where
  "discount_transaction = \<lparr>rq_amount = Number 10, rq_description = None\<rparr>"

text \<open>
  The body of \<^verbatim>\<open>PUT /config\<close> that sets the benefit type and nothing else, and the
  database after that request.
\<close>

definition mode_update :: "string \<Rightarrow> config_update" where
  "mode_update m =
     \<lparr>cu_benefit_type = Some m, cu_points_per_real = None, cu_silver_threshold = None,
      cu_gold_threshold = None, cu_diamond_threshold = None, cu_bronze_discount = None,
      cu_silver_discount = None, cu_gold_discount = None, cu_diamond_discount = None,
      cu_welcome_message = None, cu_promotion_message_template = None\<rparr>"

definition with_mode :: "string \<Rightarrow> nat \<Rightarrow> store \<Rightarrow> store" where
  "with_mode m now s = snd (update_loyalty_config now (mode_update m) s)"

text \<open>A transaction row and a customer answer with the benefit-type label blanked.\<close>

definition unlabel_tx :: "transaction \<Rightarrow> transaction" where
  "unlabel_tx t = t\<lparr>tx_benefit_type := []\<rparr>"

definition unlabel_dict :: "customer_dict \<Rightarrow> customer_dict" where
  "unlabel_dict d = d\<lparr>d_benefit_type := []\<rparr>"


section \<open>Properties of the formatters\<close>

lemma is_digit_seps: "\<not> is_digit CHR ''.''" "\<not> is_digit CHR ''-''"
  by (simp_all add: is_digit_def)

lemma regroup: "take 3 d @ take 3 (drop 3 d) @ take 3 (drop 6 d) @ drop 9 d = (d::'a list)"
proof -
  have 1: "take 3 (drop 6 d) @ drop 9 d = drop 6 d"
    using append_take_drop_id[of 3 "drop 6 d"] by simp
  have 2: "take 3 (drop 3 d) @ drop 6 d = drop 3 d"
    using append_take_drop_id[of 3 "drop 3 d"] by simp
  show ?thesis by (simp only: 1 2 append_take_drop_id)
qed

lemma digits_only_grouped:
  assumes "\<forall>c\<in>set d. is_digit c"
  shows "digits_only (slice 0 3 d @ ''.'' @ slice 3 6 d @ ''.'' @ slice 6 9 d @ ''-'' @ drop 9 d) = d"
proof -
  have a: "\<And>n m. filter is_digit (take n (drop m d)) = take n (drop m d)"
    using assms by (intro filter_True) (auto dest!: in_set_takeD in_set_dropD)
  have b: "\<And>m. filter is_digit (drop m d) = drop m d"
    using assms by (intro filter_True) (auto dest!: in_set_dropD)
  have c: "\<And>n. filter is_digit (take n d) = take n d"
    using assms by (intro filter_True) (auto dest!: in_set_takeD)
  have "digits_only (slice 0 3 d @ ''.'' @ slice 3 6 d @ ''.'' @ slice 6 9 d @ ''-'' @ drop 9 d)
        = take 3 d @ take 3 (drop 3 d) @ take 3 (drop 6 d) @ drop 9 d"
    by (simp add: digits_only_def slice_def a b c is_digit_seps)
  also have "\<dots> = d" by (rule regroup)
  finally show ?thesis .
qed

text \<open>
  Claim C9. For every string whose digits-only form has exactly 11 digits, formatting,
  stripping the result to its digits and formatting again gives the first formatting.
\<close>

theorem format_cpf_roundtrip:
  assumes "length (digits_only x) = 11"
  shows "format_cpf (digits_only (format_cpf x)) = format_cpf x"
proof -
  let ?d = "digits_only x"
  have all: "\<forall>c\<in>set ?d. is_digit c" by (simp add: digits_only_def)
  have f: "format_cpf x = slice 0 3 ?d @ ''.'' @ slice 3 6 ?d @ ''.'' @ slice 6 9 ?d @ ''-'' @ drop 9 ?d"
    using assms by (simp add: format_cpf_def Let_def)
  have g: "digits_only (format_cpf x) = ?d"
    unfolding f by (rule digits_only_grouped[OF all])
  have idem: "digits_only ?d = ?d" by (simp add: digits_only_def)
  show ?thesis
    unfolding g using assms by (simp add: format_cpf_def[of ?d] f idem Let_def)
qed

theorem format_cpf_roundtrip_witness:
  "length (digits_only ''529 982 247/25'') = 11
   \<and> format_cpf ''529 982 247/25'' = ''529.982.247-25''
   \<and> format_cpf (digits_only (format_cpf ''529 982 247/25'')) = format_cpf ''529 982 247/25''"
proof -
  have h: "length (digits_only ''529 982 247/25'') = 11" by code_simp
  have f: "format_cpf ''529 982 247/25'' = ''529.982.247-25''" by code_simp
  show ?thesis using h f format_cpf_roundtrip[OF h] by simp
qed

section \<open>Properties of the active configuration\<close>

lemma find_append_None: "find P xs = None \<Longrightarrow> find P (xs @ ys) = find P ys"
  by (induction xs) (auto split: if_splits)

lemma get_current_config_again:
  assumes "get_current_config now s = (c, s')"
  shows "get_current_config now' s' = (c, s')"
proof (cases "find cfg_active (configs s)")
  case None
  with assms have c: "c = default_config (next_id (map cfg_id (configs s))) now"
    and s': "s' = s\<lparr>configs := configs s @ [c]\<rparr>"
    by (auto simp: get_current_config_def Let_def)
  have "cfg_active c" by (simp add: c default_config_def)
  then have "find cfg_active (configs s') = Some c"
    using None by (simp add: s' find_append_None)
  then show ?thesis by (simp add: get_current_config_def)
next
  case (Some a)
  with assms show ?thesis by (auto simp: get_current_config_def)
qed

lemma get_current_config_found:
  "find cfg_active (configs s) = Some c \<Longrightarrow> get_current_config now s = (c, s)"
  by (simp add: get_current_config_def)

lemma get_current_config_active:
  assumes "get_current_config now s = (c, s')"
  shows "find cfg_active (configs s') = Some c"
    and "customers s' = customers s" and "transactions s' = transactions s"
proof -
  show "find cfg_active (configs s') = Some c"
  proof (cases "find cfg_active (configs s)")
    case None
    with assms have c: "c = default_config (next_id (map cfg_id (configs s))) now"
      and s': "s' = s\<lparr>configs := configs s @ [c]\<rparr>"
      by (auto simp: get_current_config_def Let_def)
    have "cfg_active c" by (simp add: c default_config_def)
    then show ?thesis using None by (simp add: s' find_append_None)
  next
    case (Some a)
    with assms show ?thesis by (auto simp: get_current_config_def)
  qed
  show "customers s' = customers s" and "transactions s' = transactions s"
    using assms by (auto simp: get_current_config_def Let_def split: option.splits)
qed

text \<open>
  Claim C8. A second call of \<^verbatim>\<open>get_current_config\<close> returns the row the first one
  returned and leaves the database as the first one left it; the number of active rows
  after the first call is one if there was none and unchanged otherwise; and when there
  was none, the row the first call appends holds the documented defaults.
\<close>

theorem get_current_config_idempotent:
  assumes "get_current_config now s = (c1, s1)"
  shows "get_current_config now' s1 = (c1, s1)
       \<and> length (filter cfg_active (configs s1)) =
           (if find cfg_active (configs s) = None then 1 else length (filter cfg_active (configs s)))
       \<and> (find cfg_active (configs s) = None \<longrightarrow>
            configs s1 = configs s @ [c1] \<and> cfg_active c1 \<and>
            benefit_type c1 = ''points'' \<and> points_per_real c1 = 10 \<and>
            silver_threshold c1 = 500 \<and> gold_threshold c1 = 1500 \<and> diamond_threshold c1 = 3000 \<and>
            bronze_discount c1 = 5 \<and> silver_discount c1 = 10 \<and>
            gold_discount c1 = 15 \<and> diamond_discount c1 = 20)"
proof (intro conjI)
  show "get_current_config now' s1 = (c1, s1)" by (rule get_current_config_again[OF assms])
  have none: "find cfg_active cs = None \<Longrightarrow> filter cfg_active cs = []" for cs
    by (induction cs) (auto split: if_splits)
  show "length (filter cfg_active (configs s1)) =
           (if find cfg_active (configs s) = None then 1 else length (filter cfg_active (configs s)))"
    using assms none[of "configs s"]
    by (auto simp: get_current_config_def Let_def default_config_def split: option.splits)
  show "find cfg_active (configs s) = None \<longrightarrow>
            configs s1 = configs s @ [c1] \<and> cfg_active c1 \<and>
            benefit_type c1 = ''points'' \<and> points_per_real c1 = 10 \<and>
            silver_threshold c1 = 500 \<and> gold_threshold c1 = 1500 \<and> diamond_threshold c1 = 3000 \<and>
            bronze_discount c1 = 5 \<and> silver_discount c1 = 10 \<and>
            gold_discount c1 = 15 \<and> diamond_discount c1 = 20"
    using assms by (auto simp: get_current_config_def Let_def default_config_def)
qed

theorem get_current_config_idempotent_witness:
  "get_current_config 5 empty_store =
     (default_config 1 5, empty_store\<lparr>configs := [default_config 1 5]\<rparr>)
   \<and> get_current_config 9 (empty_store\<lparr>configs := [default_config 1 5]\<rparr>) =
     (default_config 1 5, empty_store\<lparr>configs := [default_config 1 5]\<rparr>)
   \<and> length (filter cfg_active (configs (empty_store\<lparr>configs := [default_config 1 5]\<rparr>))) = 1"
proof -
  have h: "get_current_config 5 empty_store =
     (default_config 1 5, empty_store\<lparr>configs := [default_config 1 5]\<rparr>)"
    by (simp add: get_current_config_def empty_store_def next_id_def Let_def)
  have e: "find cfg_active (configs empty_store) = None" by (simp add: empty_store_def)
  show ?thesis using h get_current_config_idempotent[OF h, of 9] by (simp add: e)
qed

section \<open>Properties of the tier computation\<close>

lemma tier_rank_values:
  "tier_rank ''Bronze'' = 0" "tier_rank ''Prata'' = 1" "tier_rank ''Ouro'' = 2" "tier_rank ''Diamante'' = 3"
  by (simp_all add: tier_rank_def tier_names_def)

text \<open>
  Claim C4. For thresholds with silver \<open>\<le>\<close> gold \<open>\<le>\<close> diamond the tier does not go
  down when the points go up, and it is always one of the four tier names, which are
  pairwise different.
\<close>

theorem get_level_monotone:
  assumes "silver_threshold config \<le> gold_threshold config"
    and "gold_threshold config \<le> diamond_threshold config"
    and "points c1 \<le> points c2"
  shows "tier_rank (get_level_body config c1) \<le> tier_rank (get_level_body config c2)
         \<and> get_level_body config c1 \<in> set tier_names \<and> distinct tier_names"
proof (intro conjI)
  show "tier_rank (get_level_body config c1) \<le> tier_rank (get_level_body config c2)"
    using assms(3) by (simp add: get_level_body_def tier_rank_values)
  show "get_level_body config c1 \<in> set tier_names"
    by (simp add: get_level_body_def tier_names_def)
  show "distinct tier_names" by (simp add: tier_names_def)
qed

theorem get_level_monotone_witness:
  "silver_threshold (default_config 1 0) \<le> gold_threshold (default_config 1 0)
   \<and> gold_threshold (default_config 1 0) \<le> diamond_threshold (default_config 1 0)
   \<and> points (example_customer 499) \<le> points (example_customer 1500)
   \<and> tier_rank (get_level_body (default_config 1 0) (example_customer 499)) = 0
   \<and> tier_rank (get_level_body (default_config 1 0) (example_customer 1500)) = 2
   \<and> tier_rank (get_level_body (default_config 1 0) (example_customer 499))
       \<le> tier_rank (get_level_body (default_config 1 0) (example_customer 1500))
   \<and> get_level_body (default_config 1 0) (example_customer 499) \<in> set tier_names"
proof -
  have h1: "silver_threshold (default_config 1 0) \<le> gold_threshold (default_config 1 0)"
    by (simp add: default_config_def)
  have h2: "gold_threshold (default_config 1 0) \<le> diamond_threshold (default_config 1 0)"
    by (simp add: default_config_def)
  have h3: "points (example_customer 499) \<le> points (example_customer 1500)"
    by (simp add: example_customer_def)
  have r1: "tier_rank (get_level_body (default_config 1 0) (example_customer 499)) = 0"
    by (simp add: get_level_body_def default_config_def example_customer_def tier_rank_values)
  have r2: "tier_rank (get_level_body (default_config 1 0) (example_customer 1500)) = 2"
    by (simp add: get_level_body_def default_config_def example_customer_def tier_rank_values)
  show ?thesis using h1 h2 h3 r1 r2 get_level_monotone[OF h1 h2 h3] by simp
qed

text \<open>
  Claim C5. For thresholds with silver \<open>\<le>\<close> gold \<open>\<le>\<close> diamond the points to the next
  level are 0 exactly when the points have reached the diamond threshold; below it they
  are positive, and they are the distance to the first of the thresholds silver, gold,
  diamond that the points are still below.
\<close>

theorem points_to_next_level_gap:
  assumes "silver_threshold config \<le> gold_threshold config"
    and "gold_threshold config \<le> diamond_threshold config"
  shows "(points_to_next_level_body config c = 0 \<longleftrightarrow> diamond_threshold config \<le> points c)
       \<and> (points c < diamond_threshold config \<longrightarrow> 0 < points_to_next_level_body config c)
       \<and> points_to_next_level_body config c =
           (case next_unreached_threshold config (points c) of
              Some t \<Rightarrow> t - points c | None \<Rightarrow> 0)"
  using assms by (auto simp: points_to_next_level_body_def next_unreached_threshold_def)

theorem points_to_next_level_gap_witness:
  "silver_threshold (default_config 1 0) \<le> gold_threshold (default_config 1 0)
   \<and> gold_threshold (default_config 1 0) \<le> diamond_threshold (default_config 1 0)
   \<and> points_to_next_level_body (default_config 1 0) (example_customer 700) = 800
   \<and> next_unreached_threshold (default_config 1 0) 700 = Some 1500
   \<and> points_to_next_level_body (default_config 1 0) (example_customer 3000) = 0"
proof -
  have h1: "silver_threshold (default_config 1 0) \<le> gold_threshold (default_config 1 0)"
    by (simp add: default_config_def)
  have h2: "gold_threshold (default_config 1 0) \<le> diamond_threshold (default_config 1 0)"
    by (simp add: default_config_def)
  have n: "next_unreached_threshold (default_config 1 0) 700 = Some 1500"
    by (simp add: next_unreached_threshold_def default_config_def)
  have d: "diamond_threshold (default_config 1 0) \<le> points (example_customer 3000)"
    by (simp add: default_config_def example_customer_def)
  have p: "points (example_customer 700) = 700" by (simp add: example_customer_def)
  have g: "points_to_next_level_body (default_config 1 0) (example_customer 700) =
      (case next_unreached_threshold (default_config 1 0) (points (example_customer 700)) of
         Some t \<Rightarrow> t - points (example_customer 700) | None \<Rightarrow> 0)"
    using points_to_next_level_gap[OF h1 h2, of "example_customer 700"] by blast
  have a: "points_to_next_level_body (default_config 1 0) (example_customer 700) = 800"
    unfolding g p n by simp
  have b: "points_to_next_level_body (default_config 1 0) (example_customer 3000) = 0"
    using points_to_next_level_gap[OF h1 h2, of "example_customer 3000"] d by blast
  show ?thesis using h1 h2 n a b by blast
qed

section \<open>The methods and routes in closed form\<close>

lemma get_level_run:
  assumes "get_current_config now s = (c, s')"
  shows "get_level now self s = (get_level_body c self, s')"
  using assms by (simp add: get_level_def)

lemma get_discount_run:
  assumes "get_current_config now s = (c, s')"
  shows "get_discount now self s = (get_discount_body c (get_level_body c self), s')"
  using assms get_level_run[OF get_current_config_again[OF assms], of now self]
  by (simp add: get_discount_def)

lemma points_to_next_level_run:
  assumes "get_current_config now s = (c, s')"
  shows "points_to_next_level now self s = (points_to_next_level_body c self, s')"
  using assms by (simp add: points_to_next_level_def)

lemma add_points_run:
  assumes "get_current_config now s = (c, s')"
  shows "add_points now a self s =
           (if points_per_real c = 0 then Inl ZeroDivisionError
            else Inr (\<lfloor>a / points_per_real c\<rfloor>, credited now c a self), s')"
  using assms get_level_run[OF get_current_config_again[OF assms], of now]
  by (simp add: add_points_def int_floordiv_def credited_def Let_def)

lemma calculate_benefit_value_run:
  assumes "get_current_config now s = (c, s')"
  shows "calculate_benefit_value now a self s =
           (if benefit_type c = ''discount'' \<or> benefit_type c = ''cashback''
            then Inr (a * (get_discount_body c (get_level_body c self) / 100), self)
            else if points_per_real c = 0 then Inl ZeroDivisionError
            else Inr (of_int \<lfloor>a / points_per_real c\<rfloor>, credited now c a self), s')"
  using assms get_discount_run[OF get_current_config_again[OF assms], of now]
    add_points_run[OF get_current_config_again[OF assms], of now]
  by (simp add: calculate_benefit_value_def)

lemma to_dict_run:
  assumes "get_current_config now s = (c, s')"
  shows "to_dict now self s = (dict_of c self, s')"
  using assms get_discount_run[OF get_current_config_again[OF assms], of now]
    points_to_next_level_run[OF get_current_config_again[OF assms], of now]
  by (simp add: to_dict_def dict_of_def)

lemma credited_id [simp]: "cust_id (credited now c a self) = cust_id self"
  by (simp add: credited_def Let_def)

lemma add_transaction_run:
  assumes gcc: "get_current_config now s = (c, s')"
    and row: "get_customer_row i s = Some cust"
    and amt: "float_of (rq_amount data) = Inr a"
    and pos: "0 < a"
    and ppr: "points_per_real c \<noteq> 0"
  shows "add_transaction now i data s =
           (Inr (receipt now c (next_id (map tx_id (transactions s))) i data a cust,
                 dict_of c (posted now c a cust)),
            commit_customer (posted now c a cust)
              (s'\<lparr>transactions := transactions s @
                    [receipt now c (next_id (map tx_id (transactions s))) i data a cust]\<rparr>))"
proof -
  note again = get_current_config_again[OF gcc]
  let ?tx = "receipt now c (next_id (map tx_id (transactions s))) i data a cust"
  let ?s4 = "commit_customer (posted now c a cust) (s'\<lparr>transactions := transactions s @ [?tx]\<rparr>)"
  have tr: "transactions s' = transactions s" by (rule get_current_config_active(3)[OF gcc])
  have "find cfg_active (configs ?s4) = Some c"
    using get_current_config_active(1)[OF gcc] by (simp add: commit_customer_def)
  then have g4: "get_current_config now ?s4 = (c, ?s4)" by (rule get_current_config_found)
  have td: "to_dict now (posted now c a cust) ?s4 = (dict_of c (posted now c a cust), ?s4)"
    by (rule to_dict_run[OF g4])
  have ap: "add_points now a cust s = (Inr (\<lfloor>a / points_per_real c\<rfloor>, credited now c a cust), s')"
    using add_points_run[OF gcc, of a cust] ppr by simp
  show ?thesis
  proof (cases "benefit_type c = ''discount'' \<or> benefit_type c = ''cashback''")
    case True
    have cb: "calculate_benefit_value now a (credited now c a cust) s' =
       (Inr (a * (get_discount_body c (get_level_body c (credited now c a cust)) / 100), credited now c a cust), s')"
      using calculate_benefit_value_run[OF again, of now a] True by simp
    have p: "posted now c a cust = credited now c a cust" using True by (simp add: posted_def)
    show ?thesis
      using row amt pos ap again[of now] cb td True
      by (simp add: add_transaction_def p receipt_def tr Let_def)
  next
    case False
    have cb: "calculate_benefit_value now a (credited now c a cust) s' =
       (Inr (of_int \<lfloor>a / points_per_real c\<rfloor>, credited now c a (credited now c a cust)), s')"
      using calculate_benefit_value_run[OF again, of now a] False ppr by simp
    have p: "posted now c a cust = credited now c a (credited now c a cust)" using False by (simp add: posted_def)
    show ?thesis
      using row amt pos ap again[of now] cb td False
      by (simp add: add_transaction_def p receipt_def tr Let_def)
  qed
qed

lemma find_replace_row:
  assumes "find (\<lambda>x. cust_id x = i) cs = Some c" and "cust_id c' = i"
  shows "find (\<lambda>x. cust_id x = i) (map (\<lambda>x. if cust_id x = cust_id c' then c' else x) cs) = Some c'"
  using assms by (induction cs) (auto split: if_splits)

lemma get_customer_row_id: "get_customer_row i s = Some c \<Longrightarrow> cust_id c = i"
  by (auto simp: get_customer_row_def find_Some_iff)

lemma get_customer_row_commit:
  assumes "get_customer_row i s = Some c" and "cust_id c' = i" and "customers t = customers s"
  shows "get_customer_row i (commit_customer c' t) = Some c'"
  using find_replace_row[of i "customers s" c c'] assms
  by (simp add: get_customer_row_def commit_customer_def)

lemma credited_fields:
  "points (credited now c a self) = points self + \<lfloor>a / points_per_real c\<rfloor>"
  "total_spent (credited now c a self) = total_spent self + a"
  "level (credited now c a self) = get_level_body c (credited now c a self)"
  "last_visit (credited now c a self) = now"
  by (simp_all add: credited_def Let_def get_level_body_def)

lemma find_replace_config:
  assumes "find cfg_active cs = Some c" and "cfg_active c'" and "cfg_id c' = cfg_id c"
  shows "find cfg_active (map (\<lambda>x. if cfg_id x = cfg_id c' then c' else x) cs) = Some c'"
  using assms by (induction cs) (auto split: if_splits)

lemma with_mode_run:
  assumes "get_current_config now s = (c, s1)"
  shows "find cfg_active (configs (with_mode m now s)) = Some (c\<lparr>benefit_type := m, updated_at := now\<rparr>)"
    and "customers (with_mode m now s) = customers s"
    and "transactions (with_mode m now s) = transactions s"
proof -
  note act = get_current_config_active[OF assms]
  have a: "cfg_active c" using act(1) by (auto simp: find_Some_iff)
  let ?c2 = "(set_fields (mode_update m) c)\<lparr>updated_at := now\<rparr>"
  have c2: "?c2 = c\<lparr>benefit_type := m, updated_at := now\<rparr>"
    by (simp add: set_fields_def mode_update_def)
  have w: "with_mode m now s = commit_config ?c2 s1"
    using assms by (simp add: with_mode_def update_loyalty_config_def Let_def)
  show "find cfg_active (configs (with_mode m now s)) = Some (c\<lparr>benefit_type := m, updated_at := now\<rparr>)"
    unfolding w c2 using find_replace_config[OF act(1), of "c\<lparr>benefit_type := m, updated_at := now\<rparr>"] a
    by (simp add: commit_config_def)
  show "customers (with_mode m now s) = customers s"
    unfolding w using act(2) by (simp add: commit_config_def)
  show "transactions (with_mode m now s) = transactions s"
    unfolding w using act(3) by (simp add: commit_config_def)
qed

lemma add_transaction_cases:
  assumes cfg: "find cfg_active (configs s) = Some c"
  shows "add_transaction now i data s =
     (case get_customer_row i s of
        None \<Rightarrow> (Inl (Internal NotFound), s)
      | Some cust \<Rightarrow>
         (case float_of (rq_amount data) of
            Inl e \<Rightarrow> (Inl (Internal e), s)
          | Inr a \<Rightarrow>
              if a \<le> 0 then (Inl AmountNotPositive, s)
              else if points_per_real c = 0 then (Inl (Internal ZeroDivisionError), s)
              else (Inr (receipt now c (next_id (map tx_id (transactions s))) i data a cust,
                         dict_of c (posted now c a cust)),
                    commit_customer (posted now c a cust)
                      (s\<lparr>transactions := transactions s @
                          [receipt now c (next_id (map tx_id (transactions s))) i data a cust]\<rparr>))))"
proof -
  have gcc: "get_current_config now s = (c, s)" by (rule get_current_config_found[OF cfg])
  show ?thesis
  proof (cases "get_customer_row i s")
    case None
    then show ?thesis by (simp add: add_transaction_def)
  next
    case (Some cust)
    show ?thesis
    proof (cases "float_of (rq_amount data)")
      case (Inl e)
      then show ?thesis using Some by (simp add: add_transaction_def)
    next
      case (Inr a)
      consider "a \<le> 0" | "0 < a" "points_per_real c = 0" | "0 < a" "points_per_real c \<noteq> 0"
        by fastforce
      then show ?thesis
      proof cases
        case 1
        then show ?thesis using Some Inr by (simp add: add_transaction_def)
      next
        case 2
        have "add_points now a cust s = (Inl ZeroDivisionError, s)"
          using add_points_run[OF gcc, of a cust] 2 by simp
        then show ?thesis using Some Inr 2 by (simp add: add_transaction_def)
      next
        case 3
        show ?thesis using add_transaction_run[OF gcc Some Inr 3] Some Inr 3 by simp
      qed
    qed
  qed
qed

lemma posted_fields:
  "points (posted now c a cust) =
     points cust + (if benefit_type c = ''discount'' \<or> benefit_type c = ''cashback'' then 1 else 2)
                   * \<lfloor>a / points_per_real c\<rfloor>"
  "total_spent (posted now c a cust) =
     total_spent cust + (if benefit_type c = ''discount'' \<or> benefit_type c = ''cashback'' then 1 else 2) * a"
  "level (posted now c a cust) = get_level_body c (posted now c a cust)"
  "cust_id (posted now c a cust) = cust_id cust"
  by (simp_all add: posted_def credited_fields)

lemma add_transaction_level_fresh:
  assumes gcc: "get_current_config now s = (c, s')"
    and row: "get_customer_row i s = Some cust"
    and amt: "float_of (rq_amount data) = Inr a"
    and pos: "0 < a"
    and ppr: "points_per_real c \<noteq> 0"
  shows "get_customer_row i (snd (add_transaction now i data s)) = Some (posted now c a cust)"
proof -
  have cs: "customers (s'\<lparr>transactions := transactions s @ [t]\<rparr>) = customers s" for t
    using get_current_config_active(2)[OF gcc] by simp
  show ?thesis
    unfolding add_transaction_run[OF gcc row amt pos ppr] snd_conv
    by (rule get_customer_row_commit[OF row _ cs])
       (simp add: posted_fields get_customer_row_id[OF row])
qed

lemma update_customer_level_fresh:
  assumes gcc: "get_current_config now s = (c, s1)"
    and row: "get_customer_row i s = Some cust"
    and pts: "up_points data = Some v"
  shows "\<exists>c'. get_customer_row i (snd (update_customer now i data s)) = Some c'
            \<and> points c' = v \<and> level c' = get_level_body c c'"
proof -
  define c3 where "c3 =
     (case up_email data of None \<Rightarrow>
        (case up_phone data of None \<Rightarrow>
           (case up_full_name data of None \<Rightarrow> cust | Some v \<Rightarrow> cust\<lparr>full_name := v\<rparr>)
         | Some v \<Rightarrow> (case up_full_name data of None \<Rightarrow> cust | Some v \<Rightarrow> cust\<lparr>full_name := v\<rparr>)\<lparr>phone := digits_only v\<rparr>)
      | Some e \<Rightarrow>
        (case up_phone data of None \<Rightarrow>
           (case up_full_name data of None \<Rightarrow> cust | Some v \<Rightarrow> cust\<lparr>full_name := v\<rparr>)
         | Some v \<Rightarrow> (case up_full_name data of None \<Rightarrow> cust | Some v \<Rightarrow> cust\<lparr>full_name := v\<rparr>)\<lparr>phone := digits_only v\<rparr>)\<lparr>email := e\<rparr>)"
  define c4 where "c4 = c3\<lparr>points := v, level := get_level_body c (c3\<lparr>points := v\<rparr>)\<rparr>"
  have id3: "cust_id c3 = i"
    using get_customer_row_id[OF row] by (simp add: c3_def split: option.splits)
  have id4: "cust_id c4 = i" using id3 by (simp add: c4_def)
  have act: "find cfg_active (configs (commit_customer c4 s1)) = Some c"
    using get_current_config_active(1)[OF gcc] by (simp add: commit_customer_def)
  have td: "to_dict now c4 (commit_customer c4 s1) = (dict_of c c4, commit_customer c4 s1)"
    by (rule to_dict_run[OF get_current_config_found[OF act]])
  have run: "update_customer now i data s = (Inr (dict_of c c4), commit_customer c4 s1)"
    using row pts td get_level_run[OF gcc, of "c3\<lparr>points := v\<rparr>"]
    by (simp add: update_customer_def Let_def c4_def c3_def split: option.splits)
  have "get_customer_row i (commit_customer c4 s1) = Some c4"
    by (rule get_customer_row_commit[OF row id4 get_current_config_active(2)[OF gcc]])
  moreover have "points c4 = v" "level c4 = get_level_body c c4"
    by (simp_all add: c4_def get_level_body_def)
  ultimately show ?thesis unfolding run by simp
qed

section \<open>Posting a transaction\<close>

text \<open>
  Claim C6. For an existing customer, a transaction whose amount is 0 or negative (or
  absent, which reads as 0) is answered with the validation error, status 400, and the
  database is returned as it was: the customer's row and the transaction table are
  unchanged.
\<close>

theorem add_transaction_rejects_nonpositive:
  assumes "get_customer_row i s = Some c"
    and "float_of (rq_amount data) = Inr a"
    and "a \<le> 0"
  shows "add_transaction now i data s = (Inl AmountNotPositive, s)
         \<and> status_code AmountNotPositive = 400
         \<and> get_customer_row i (snd (add_transaction now i data s)) = Some c
         \<and> transactions (snd (add_transaction now i data s)) = transactions s"
proof -
  have "add_transaction now i data s = (Inl AmountNotPositive, s)"
    using assms by (simp add: add_transaction_def)
  then show ?thesis using assms(1) by simp
qed

theorem add_transaction_rejects_nonpositive_witness:
  "get_customer_row 1 (example_store 40) = Some (example_customer 40)
   \<and> float_of (rq_amount \<lparr>rq_amount = Number (-5), rq_description = None\<rparr>) = Inr (-5)
   \<and> (-5 :: rat) \<le> 0
   \<and> add_transaction 7 1 \<lparr>rq_amount = Number (-5), rq_description = None\<rparr> (example_store 40)
       = (Inl AmountNotPositive, example_store 40)"
proof -
  have h1: "get_customer_row 1 (example_store 40) = Some (example_customer 40)"
    by (simp add: get_customer_row_def example_store_def example_customer_def)
  have h2: "float_of (rq_amount \<lparr>rq_amount = Number (-5), rq_description = None\<rparr>) = Inr (-5)"
    by simp
  have h3: "(-5 :: rat) \<le> 0" by simp
  show ?thesis
    using h1 h2 h3 add_transaction_rejects_nonpositive[OF h1 h2 h3, of 7] by blast
qed

text \<open>
  Claim C2. With the default thresholds and percentages, benefit type discount and 10
  currency units per point, a customer holding 500 points who posts an amount of 10 ends
  with 501 points and level Prata (silver), and the benefit value of the transaction is
  1: the amount times the percentage of the level the customer has after the points
  were added.
\<close>

theorem promotion_uses_post_transaction_tier:
  assumes cfg: "find cfg_active (configs s) = Some config"
    and mode: "benefit_type config = ''discount''"
    and ppr: "points_per_real config = 10"
    and th: "silver_threshold config = 500" "gold_threshold config = 1500" "diamond_threshold config = 3000"
    and pc: "bronze_discount config = 5" "silver_discount config = 10" "gold_discount config = 15" "diamond_discount config = 20"
    and row: "get_customer_row i s = Some c"
    and pts: "points c = 500"
    and amt: "rq_amount data = Number 10"
  shows "\<exists>tx d s' c'. add_transaction now i data s = (Inr (tx, d), s')
          \<and> points_earned tx = 1 \<and> benefit_value tx = 1
          \<and> d_points d = 501 \<and> d_level d = ''Prata''
          \<and> get_customer_row i s' = Some c' \<and> points c' = 501 \<and> level c' = ''Prata''
          \<and> benefit_value tx = amount tx * (get_discount_body config (level c') / 100)"
proof -
  let ?c' = "credited now config 10 c"
  let ?tx = "receipt now config (next_id (map tx_id (transactions s))) i data 10 c"
  let ?s' = "commit_customer ?c' (s\<lparr>transactions := transactions s @ [?tx]\<rparr>)"
  have gcc: "get_current_config now s = (config, s)" by (rule get_current_config_found[OF cfg])
  have fl: "float_of (rq_amount data) = Inr 10" using amt by simp
  have p: "posted now config 10 c = ?c'" using mode by (simp add: posted_def)
  have run: "add_transaction now i data s = (Inr (?tx, dict_of config ?c'), ?s')"
    using add_transaction_run[OF gcc row fl] ppr by (simp add: p)
  have pt: "points ?c' = 501" using pts ppr by (simp add: credited_fields)
  have lv: "get_level_body config ?c' = ''Prata''" using pt th by (simp add: get_level_body_def)
  have lv': "level ?c' = ''Prata''" using lv by (simp add: credited_fields)
  have dv: "get_discount_body config ''Prata'' = 10" using pc by (simp add: get_discount_body_def)
  have bv: "benefit_value ?tx = 1" using mode lv dv by (simp add: receipt_def)
  have pe: "points_earned ?tx = 1" using ppr by (simp add: receipt_def)
  have am: "amount ?tx = 10" by (simp add: receipt_def)
  have gr: "get_customer_row i ?s' = Some ?c'"
    by (rule get_customer_row_commit[OF row]) (simp_all add: get_customer_row_id[OF row])
  have "add_transaction now i data s = (Inr (?tx, dict_of config ?c'), ?s')
          \<and> points_earned ?tx = 1 \<and> benefit_value ?tx = 1
          \<and> d_points (dict_of config ?c') = 501 \<and> d_level (dict_of config ?c') = ''Prata''
          \<and> get_customer_row i ?s' = Some ?c' \<and> points ?c' = 501 \<and> level ?c' = ''Prata''
          \<and> benefit_value ?tx = amount ?tx * (get_discount_body config (level ?c') / 100)"
    using run pe bv pt lv' gr by (simp add: dict_of_def am dv)
  then show ?thesis by blast
qed

theorem promotion_uses_post_transaction_tier_witness:
  "find cfg_active (configs (discount_store 500)) = Some ((default_config 1 0)\<lparr>benefit_type := ''discount''\<rparr>)
   \<and> get_customer_row 1 (discount_store 500) = Some (example_customer 500)
   \<and> points (example_customer 500) = 500
   \<and> rq_amount discount_transaction = Number 10
   \<and> (\<exists>tx d s' c'. add_transaction 7 1 discount_transaction (discount_store 500) = (Inr (tx, d), s')
          \<and> points_earned tx = 1 \<and> benefit_value tx = 1
          \<and> d_points d = 501 \<and> d_level d = ''Prata''
          \<and> get_customer_row 1 s' = Some c' \<and> points c' = 501 \<and> level c' = ''Prata'')"
proof -
  let ?config = "(default_config 1 0)\<lparr>benefit_type := ''discount''\<rparr>"
  have h1: "find cfg_active (configs (discount_store 500)) = Some ?config"
    by (simp add: discount_store_def default_config_def)
  have h2: "benefit_type ?config = ''discount''" by simp
  have h3: "points_per_real ?config = 10" by (simp add: default_config_def)
  have h4: "silver_threshold ?config = 500" "gold_threshold ?config = 1500"
    "diamond_threshold ?config = 3000" by (simp_all add: default_config_def)
  have h5: "bronze_discount ?config = 5" "silver_discount ?config = 10"
    "gold_discount ?config = 15" "diamond_discount ?config = 20" by (simp_all add: default_config_def)
  have h6: "get_customer_row 1 (discount_store 500) = Some (example_customer 500)"
    by (simp add: get_customer_row_def discount_store_def example_customer_def)
  have h7: "points (example_customer 500) = 500" by (simp add: example_customer_def)
  have h8: "rq_amount discount_transaction = Number 10" by (simp add: discount_transaction_def)
  show ?thesis
    using h1 h6 h7 h8 promotion_uses_post_transaction_tier[OF h1 h2 h3 h4 h5 h6 h7 h8, of 7]
    by blast
qed

text \<open>
  Claim C1. The claim says that a posted amount adds its points and itself once, whatever
  the benefit type. Under the default configuration (benefit type points) the route calls
  \<^verbatim>\<open>add_points\<close> and then \<^verbatim>\<open>calculate_benefit_value\<close>, which calls
  \<^verbatim>\<open>add_points\<close> again: a customer with 0 points who posts 100 ends with 20 points
  and a total of 200, while the transaction row records 10 points earned. Lemma
  \<open>posted_fields\<close> gives the general form: once for discount and cashback, twice otherwise.
\<close>

theorem add_transaction_points_mode_credits_twice:
  "(let s' = snd (add_transaction 7 1 \<lparr>rq_amount = Number 100, rq_description = None\<rparr> (example_store 0))
    in map points (customers s') = [20]
     \<and> map total_spent (customers s') = [200]
     \<and> map level (customers s') = [''Bronze'']
     \<and> map points_earned (transactions s') = [10]
     \<and> map benefit_value (transactions s') = [10]
     \<and> map tx_benefit_type (transactions s') = [''points''])"
  by code_simp

section \<open>Discount and cashback\<close>

lemma mode_irrelevant:
  "get_level_body (c\<lparr>benefit_type := m, updated_at := n\<rparr>) = get_level_body c"
  "get_discount_body (c\<lparr>benefit_type := m, updated_at := n\<rparr>) = get_discount_body c"
  "points_to_next_level_body (c\<lparr>benefit_type := m, updated_at := n\<rparr>) = points_to_next_level_body c"
  "credited now (c\<lparr>benefit_type := m, updated_at := n\<rparr>) = credited now c"
  by (simp_all add: fun_eq_iff get_level_body_def get_discount_body_def
        points_to_next_level_body_def credited_def Let_def)

lemma percent_mode_rows:
  assumes "m = ''discount'' \<or> m = ''cashback''"
  shows "posted now (c\<lparr>benefit_type := m, updated_at := n\<rparr>) a cust = credited now c a cust"
    and "unlabel_tx (receipt now (c\<lparr>benefit_type := m, updated_at := n\<rparr>) k i data a cust) =
         \<lparr>tx_id = k, customer_id = i, amount = a,
          points_earned = \<lfloor>a / points_per_real c\<rfloor>,
          benefit_value = a * (get_discount_body c (get_level_body c (credited now c a cust)) / 100),
          tx_benefit_type = [],
          description = (case rq_description data of None \<Rightarrow> [] | Some v \<Rightarrow> v),
          tx_created_at = now\<rparr>"
    and "tx_benefit_type (receipt now (c\<lparr>benefit_type := m, updated_at := n\<rparr>) k i data a cust) = m"
    and "unlabel_dict (dict_of (c\<lparr>benefit_type := m, updated_at := n\<rparr>) x) = unlabel_dict (dict_of c x)"
  using assms
  by (auto simp: posted_def receipt_def unlabel_tx_def unlabel_dict_def dict_of_def mode_irrelevant)

lemma percent_mode_result:
  assumes m: "m = ''discount'' \<or> m = ''cashback''"
    and gcc: "get_current_config now s = (c, s1)"
  shows "map_sum id (map_prod unlabel_tx unlabel_dict) (fst (add_transaction now' i data (with_mode m now s))) =
     (case get_customer_row i s of
        None \<Rightarrow> Inl (Internal NotFound)
      | Some cust \<Rightarrow>
         (case float_of (rq_amount data) of
            Inl e \<Rightarrow> Inl (Internal e)
          | Inr a \<Rightarrow>
              if a \<le> 0 then Inl AmountNotPositive
              else if points_per_real c = 0 then Inl (Internal ZeroDivisionError)
              else Inr (unlabel_tx (receipt now' (c\<lparr>benefit_type := ''discount'', updated_at := now\<rparr>)
                                     (next_id (map tx_id (transactions s))) i data a cust),
                        unlabel_dict (dict_of c (credited now' c a cust)))))"
    (is ?A)
    and "customers (snd (add_transaction now' i data (with_mode m now s))) =
     (case get_customer_row i s of
        None \<Rightarrow> customers s
      | Some cust \<Rightarrow>
         (case float_of (rq_amount data) of
            Inl e \<Rightarrow> customers s
          | Inr a \<Rightarrow>
              if a \<le> 0 \<or> points_per_real c = 0 then customers s
              else customers (commit_customer (credited now' c a cust) s)))"
    (is ?B)
    and "map unlabel_tx (transactions (snd (add_transaction now' i data (with_mode m now s)))) =
     (case get_customer_row i s of
        None \<Rightarrow> map unlabel_tx (transactions s)
      | Some cust \<Rightarrow>
         (case float_of (rq_amount data) of
            Inl e \<Rightarrow> map unlabel_tx (transactions s)
          | Inr a \<Rightarrow>
              if a \<le> 0 \<or> points_per_real c = 0 then map unlabel_tx (transactions s)
              else map unlabel_tx (transactions s) @
                   [unlabel_tx (receipt now' (c\<lparr>benefit_type := ''discount'', updated_at := now\<rparr>)
                                     (next_id (map tx_id (transactions s))) i data a cust)]))"
    (is ?C)
    and "map tx_benefit_type (drop (length (transactions s))
            (transactions (snd (add_transaction now' i data (with_mode m now s))))) \<in> {[], [m]}"
    (is ?D)
proof -
  note w = with_mode_run[OF gcc, of m]
  have row: "get_customer_row i (with_mode m now s) = get_customer_row i s"
    by (simp add: get_customer_row_def w(2))
  note cases = add_transaction_cases[OF w(1), of now' i data, unfolded row w(3)]
  have d: "m = ''discount'' \<or> m = ''cashback''" "''discount'' = ''discount'' \<or> ''discount'' = ''cashback''"
    using m by simp_all
  show ?A
    unfolding cases
    by (simp add: percent_mode_rows[OF d(1)] percent_mode_rows[OF d(2)]
          split: option.splits sum.splits)
  show ?B
    unfolding cases
    by (simp add: percent_mode_rows[OF d(1)] commit_customer_def w(2)
          split: option.splits sum.splits)
  show ?C
    unfolding cases
    by (simp add: percent_mode_rows[OF d(1)] percent_mode_rows[OF d(2)] commit_customer_def w(3)
          split: option.splits sum.splits)
  show ?D
    unfolding cases
    by (simp add: percent_mode_rows[OF d(1)] commit_customer_def w(3)
          split: option.splits sum.splits)
qed

text \<open>
  Claim C7. Take any database and set the benefit type to discount, or to cashback,
  leaving every other field of the configuration alone. In both databases
  \<^verbatim>\<open>calculate_benefit_value\<close> returns the amount times the percentage of the
  customer's level over 100 and leaves the customer as it is, and the percentage is the
  same in both. Posting a transaction gives the same customers, and the same answer and
  the same transaction table once the benefit-type labels are blanked; the row it adds,
  if any, carries the label of the mode.
\<close>

theorem discount_and_cashback_agree:
  "fst (calculate_benefit_value now' a self (with_mode ''discount'' now s))
     = Inr (a * (fst (get_discount now' self (with_mode ''discount'' now s)) / 100), self)
   \<and> fst (calculate_benefit_value now' a self (with_mode ''cashback'' now s))
     = Inr (a * (fst (get_discount now' self (with_mode ''cashback'' now s)) / 100), self)
   \<and> fst (get_discount now' self (with_mode ''cashback'' now s))
     = fst (get_discount now' self (with_mode ''discount'' now s))
   \<and> map_sum id (map_prod unlabel_tx unlabel_dict)
        (fst (add_transaction now' i data (with_mode ''cashback'' now s)))
     = map_sum id (map_prod unlabel_tx unlabel_dict)
        (fst (add_transaction now' i data (with_mode ''discount'' now s)))
   \<and> customers (snd (add_transaction now' i data (with_mode ''cashback'' now s)))
     = customers (snd (add_transaction now' i data (with_mode ''discount'' now s)))
   \<and> map unlabel_tx (transactions (snd (add_transaction now' i data (with_mode ''cashback'' now s))))
     = map unlabel_tx (transactions (snd (add_transaction now' i data (with_mode ''discount'' now s))))
   \<and> map tx_benefit_type (drop (length (transactions s))
        (transactions (snd (add_transaction now' i data (with_mode ''discount'' now s)))))
       \<in> {[], [''discount'']}
   \<and> map tx_benefit_type (drop (length (transactions s))
        (transactions (snd (add_transaction now' i data (with_mode ''cashback'' now s)))))
       \<in> {[], [''cashback'']}"
proof -
  obtain c s1 where gcc: "get_current_config now s = (c, s1)"
    by (cases "get_current_config now s")
  have md: "''discount'' = ''discount'' \<or> ''discount'' = ''cashback''"
    and mc: "''cashback'' = ''discount'' \<or> ''cashback'' = ''cashback''" by simp_all
  note gd = get_current_config_found[OF with_mode_run(1)[OF gcc, of "''discount''"], of now']
  note gc = get_current_config_found[OF with_mode_run(1)[OF gcc, of "''cashback''"], of now']
  have 1: "fst (calculate_benefit_value now' a self (with_mode ''discount'' now s))
     = Inr (a * (fst (get_discount now' self (with_mode ''discount'' now s)) / 100), self)"
    by (simp add: calculate_benefit_value_run[OF gd] get_discount_run[OF gd])
  have 2: "fst (calculate_benefit_value now' a self (with_mode ''cashback'' now s))
     = Inr (a * (fst (get_discount now' self (with_mode ''cashback'' now s)) / 100), self)"
    by (simp add: calculate_benefit_value_run[OF gc] get_discount_run[OF gc])
  have 3: "fst (get_discount now' self (with_mode ''cashback'' now s))
     = fst (get_discount now' self (with_mode ''discount'' now s))"
    by (simp add: get_discount_run[OF gd] get_discount_run[OF gc] mode_irrelevant)
  note rd = percent_mode_result[OF md gcc, of now' i data]
  note rc = percent_mode_result[OF mc gcc, of now' i data]
  have 4: "map_sum id (map_prod unlabel_tx unlabel_dict)
        (fst (add_transaction now' i data (with_mode ''cashback'' now s)))
     = map_sum id (map_prod unlabel_tx unlabel_dict)
        (fst (add_transaction now' i data (with_mode ''discount'' now s)))"
    by (simp only: rd(1) rc(1))
  have 5: "customers (snd (add_transaction now' i data (with_mode ''cashback'' now s)))
     = customers (snd (add_transaction now' i data (with_mode ''discount'' now s)))"
    by (simp only: rd(2) rc(2))
  have 6: "map unlabel_tx (transactions (snd (add_transaction now' i data (with_mode ''cashback'' now s))))
     = map unlabel_tx (transactions (snd (add_transaction now' i data (with_mode ''discount'' now s))))"
    by (simp only: rd(3) rc(3))
  show ?thesis using 1 2 3 4 5 6 rd(4) rc(4) by blast
qed

section \<open>Registration\<close>

lemma digits_only_idem: "digits_only (digits_only x) = digits_only x"
  by (simp add: digits_only_def)

text \<open>
  Claim C10. A national ID whose digits are eleven copies of one digit is not valid, and
  a registration with it is answered with a 400 error (the invalid-CPF error when name
  and phone are present) and leaves the database unchanged; the check-digit comparison
  alone would accept \<^verbatim>\<open>11111111111\<close>.
\<close>

theorem repeated_digit_cpf_rejected:
  assumes "digits_only x = replicate 11 d"
    and "rq_cpf data = Some x"
  shows "\<not> validate_cpf x
         \<and> snd (create_customer now data s) = s
         \<and> fst (create_customer now data s) \<in> {Inl NameRequired, Inl PhoneRequired, Inl CpfInvalid}
         \<and> (rq_full_name data \<notin> {None, Some []} \<and> rq_phone data \<notin> {None, Some []}
              \<longrightarrow> fst (create_customer now data s) = Inl CpfInvalid)
         \<and> checksum_matches ''11111111111''"
proof -
  have v: "\<not> validate_cpf x" using assms(1) by (simp add: validate_cpf_def)
  have "validate_cpf (digits_only x) = validate_cpf x"
    by (simp add: validate_cpf_def digits_only_idem)
  with v have v': "\<not> validate_cpf (digits_only x)" by simp
  have x: "x \<noteq> []" using assms(1) by (auto simp: digits_only_def)
  have c: "checksum_matches ''11111111111''" by code_simp
  have r: "snd (create_customer now data s) = s
         \<and> fst (create_customer now data s) \<in> {Inl NameRequired, Inl PhoneRequired, Inl CpfInvalid}
         \<and> (rq_full_name data \<notin> {None, Some []} \<and> rq_phone data \<notin> {None, Some []}
              \<longrightarrow> fst (create_customer now data s) = Inl CpfInvalid)"
    using assms(2) v' x by (auto simp: create_customer_def split: option.splits)
  show ?thesis using v c r by blast
qed

theorem repeated_digit_cpf_rejected_witness:
  "digits_only ''111.111.111-11'' = replicate 11 CHR ''1''
   \<and> rq_cpf (example_registration ''111.111.111-11'' 0) = Some ''111.111.111-11''
   \<and> \<not> validate_cpf ''111.111.111-11''
   \<and> create_customer 7 (example_registration ''111.111.111-11'' 0) empty_store
       = (Inl CpfInvalid, empty_store)"
proof -
  have h1: "digits_only ''111.111.111-11'' = replicate 11 CHR ''1''" by code_simp
  have h2: "rq_cpf (example_registration ''111.111.111-11'' 0) = Some ''111.111.111-11''"
    by (simp add: example_registration_def)
  have n: "rq_full_name (example_registration ''111.111.111-11'' 0) \<notin> {None, Some []}
         \<and> rq_phone (example_registration ''111.111.111-11'' 0) \<notin> {None, Some []}"
    by (simp add: example_registration_def)
  note t = repeated_digit_cpf_rejected[OF h1 h2, of 7 empty_store]
  have "fst (create_customer 7 (example_registration ''111.111.111-11'' 0) empty_store) = Inl CpfInvalid"
    using t n by blast
  moreover have "snd (create_customer 7 (example_registration ''111.111.111-11'' 0) empty_store) = empty_store"
    using t by blast
  ultimately have "create_customer 7 (example_registration ''111.111.111-11'' 0) empty_store
       = (Inl CpfInvalid, empty_store)" by (simp add: prod_eq_iff)
  then show ?thesis using h1 h2 t by blast
qed

text \<open>
  Claim C3. The claim says that the stored level equals the level computed from the
  points after every operation that sets the points. \<^verbatim>\<open>update_customer\<close> and
  \<^verbatim>\<open>add_points\<close> recompute it (lemmas \<open>update_customer_level_fresh\<close> and
  \<open>add_transaction_level_fresh\<close>); \<^verbatim>\<open>create_customer\<close> does not: a customer
  registered with 600 points is stored, and returned, with the column default Bronze,
  while the level computed from 600 points is Prata.
\<close>

theorem create_customer_keeps_default_level:
  "(let s' = snd (create_customer 7 (example_registration ''529.982.247-25'' 600) empty_store)
    in map points (customers s') = [600]
     \<and> map level (customers s') = [''Bronze'']
     \<and> map (get_level_body (fst (get_current_config 8 s'))) (customers s') = [''Prata'']
     \<and> map_sum id d_level (fst (create_customer 7 (example_registration ''529.982.247-25'' 600) empty_store))
         = Inr ''Bronze'')"
  by code_simp

end
